theory Spec2Isabelle
  imports Complex_Main "HOL-Library.AList"
begin

section \<open>Data model of the trip length distribution builder\<close>

text \<open>
  The builder of \<^verbatim>\<open>normits_demand/tools/trip_length_distributions/builder.py\<close> works on
  pandas frames. A frame is a list of rows. The two numeric columns that the constructor
  validates (\<^verbatim>\<open>self.trip_distance_col\<close>, \<^verbatim>\<open>self.trip_count_col\<close>) are the fields
  \<open>trip_dist\<close> and \<open>trip_count\<close>; their float values are read as real numbers. Every
  other column is an entry of \<open>cols\<close>, keyed by the column name.

  The arithmetic of the model is that of the reals. The rounding and the overflow of
  float64, the summation order of numpy and the wrap-around of an int64 count column are
  outside it: the theorems below say which rows are selected, which branch is taken and
  which sums and quotients are formed, and none of them is about the size of a float
  sum or about finiteness after an overflow.
\<close>

datatype cell = Str string | Num real | NaN

record row =
  trip_dist :: real
  trip_count :: real
  cols :: "(string \<times> cell) list"

type_synonym seg_params = "(string \<times> cell) list"

text \<open>A float that a numpy division produced: dividing by zero gives inf or nan.\<close>

datatype float64 = Finite real | NonFinite

record cost_distribution =
  edges :: "real list"
  band_trips :: "real list"
  cost_units :: string
  band_mean_cost :: "float64 list"
  sample_size :: nat

section \<open>The cost distribution builder\<close>

text \<open>
  Modelled from the spec: \<^verbatim>\<open>func_utils.pairwise\<close> is not among the sources; the spec
  reads it as "each consecutive edge pair (lower, upper)".
\<close>

fun pairwise_seq :: "'a list \<Rightarrow> ('a \<times> 'a) list" where
  "pairwise_seq (a # b # xs) = (a, b) # pairwise_seq (b # xs)"
| "pairwise_seq xs = []"

definition np_divide :: "real \<Rightarrow> real \<Rightarrow> float64" where
  "np_divide x y = (if y = 0 then NonFinite else Finite (x / y))"

definition convert_dist :: "real \<Rightarrow> row \<Rightarrow> row" where
  "convert_dist conv_factor r = r\<lparr>trip_dist := trip_dist r * conv_factor\<rparr>"

definition band_mask :: "real \<Rightarrow> real \<Rightarrow> row \<Rightarrow> bool" where
  "band_mask lower upper r = (trip_dist r > lower \<and> trip_dist r < upper)"

definition band_rows :: "real \<Rightarrow> real \<Rightarrow> row list \<Rightarrow> row list" where
  "band_rows lower upper data = filter (band_mask lower upper) data"

definition trips_sum :: "row list \<Rightarrow> real" where
  "trips_sum band_data = sum_list (map trip_count band_data)"

definition distance_sum :: "row list \<Rightarrow> real" where
  "distance_sum band_data = sum_list (map (\<lambda>r. trip_count r * trip_dist r) band_data)"

definition mean_cost :: "real \<Rightarrow> real \<Rightarrow> row list \<Rightarrow> float64" where
  "mean_cost lower upper band_data =
     (if distance_sum band_data \<le> 0 then Finite ((lower + upper) / 2)
      else np_divide (distance_sum band_data) (trips_sum band_data))"

text \<open>The loop over the bands, with the two lists it appends to.\<close>

fun band_loop ::
  "row list \<Rightarrow> (real \<times> real) list \<Rightarrow> real list \<Rightarrow> float64 list \<Rightarrow> real list \<times> float64 list"
where
  "band_loop data [] all_band_trips all_band_mean_cost = (all_band_trips, all_band_mean_cost)"
| "band_loop data ((lower, upper) # rest) all_band_trips all_band_mean_cost =
     (let band_data = band_rows lower upper data
      in band_loop data rest
           (all_band_trips @ [trips_sum band_data])
           (all_band_mean_cost @ [mean_cost lower upper band_data]))"

text \<open>
  \<open>conv_factor\<close> is \<^verbatim>\<open>self.input_cost_units.get_conversion_factor(output_cost_units)\<close>;
  the enumeration of cost units is not among the sources, so the factor is a parameter.
\<close>

definition build_cost_distribution ::
  "(string \<Rightarrow> real) \<Rightarrow> row list \<Rightarrow> real list \<Rightarrow> string \<Rightarrow> cost_distribution"
where
  "build_cost_distribution get_conversion_factor data band_edges output_cost_units =
     (let sample_size = length data;
          conv_factor = get_conversion_factor output_cost_units;
          data = map (convert_dist conv_factor) data;
          res = band_loop data (pairwise_seq band_edges) [] []
      in \<lparr>edges = band_edges, band_trips = fst res, cost_units = output_cost_units,
          band_mean_cost = snd res, sample_size = sample_size\<rparr>)"

section \<open>Errors\<close>

text \<open>
  The enumeration \<^verbatim>\<open>tld_enums.TripFilter\<close> is not among the sources. builder.py names
  its members \<^verbatim>\<open>TRIP_OD\<close>, \<^verbatim>\<open>TRIP_O\<close> and \<^verbatim>\<open>TRIP_D\<close>; any other member is
  \<open>TRIP_OTHER\<close> with its name.
\<close>

datatype trip_filter = TRIP_OD | TRIP_O | TRIP_D | TRIP_OTHER string

text \<open>
  Every exception build_tld and the filters can raise. The two ValueErrors of the geo filter
  format the trip filter into their message, so they carry it.
\<close>

datatype error =
    ValueError_od_filter trip_filter
  | ValueError_geo_filter trip_filter
  | KeyError cell
  | ValueError_user_class cell
  | TypeError_isnan cell
  | IndexError
  | ValueError_no_objects_to_concatenate

fun named_mode :: "error \<Rightarrow> trip_filter option" where
  "named_mode (ValueError_od_filter t) = Some t"
| "named_mode (ValueError_geo_filter t) = Some t"
| "named_mode e = None"

section \<open>The geo filter\<close>

definition col_value :: "row \<Rightarrow> string \<Rightarrow> cell" where
  "col_value r c = (case map_of (cols r) c of Some v \<Rightarrow> v | None \<Rightarrow> NaN)"

definition orig_gor_col :: string where
  "orig_gor_col = ''TripOrigGOR_B02ID''"

definition dest_gor_col :: string where
  "dest_gor_col = ''TripDestGOR_B02ID''"

definition trip_origin_col :: string where
  "trip_origin_col = ''trip_origin''"

definition purpose_col :: string where
  "purpose_col = ''p''"

text \<open>The transposition of origin and destination on the rows of the mask \<open>hb_to\<close>.\<close>

definition transpose_hb_to :: "row \<Rightarrow> row" where
  "transpose_hb_to r =
     (if col_value r trip_origin_col = Str ''hb_to''
      then (let temp_orig = col_value r orig_gor_col;
                temp_dest = col_value r dest_gor_col
            in r\<lparr>cols := AList.update dest_gor_col temp_orig
                            (AList.update orig_gor_col temp_dest (cols r))\<rparr>)
      else r)"

definition isin :: "string \<Rightarrow> cell list \<Rightarrow> row \<Rightarrow> bool" where
  "isin c values r = (col_value r c \<in> set values)"

text \<open>\<open>gors\<close> is \<^verbatim>\<open>geo_area.get_gors()\<close>.\<close>

definition apply_od_geo_filter :: "row list \<Rightarrow> cell list \<Rightarrow> trip_filter \<Rightarrow> error + row list" where
  "apply_od_geo_filter nts_data gors trip_filter_type =
     (let output_data = map transpose_hb_to nts_data;
          decided =
            (if trip_filter_type = TRIP_OD then Inr (True, True)
             else if trip_filter_type = TRIP_O then Inr (True, False)
             else if trip_filter_type = TRIP_D then Inr (False, True)
             else Inl (ValueError_od_filter trip_filter_type))
      in case decided of
           Inl e \<Rightarrow> Inl e
         | Inr (filter_orig, filter_dest) \<Rightarrow>
             (let output_data =
                    (if filter_orig then filter (isin orig_gor_col gors) output_data
                     else output_data);
                  output_data =
                    (if filter_dest then filter (isin dest_gor_col gors) output_data
                     else output_data)
              in Inr output_data))"

text \<open>\<open>is_od_type\<close> is the method of the absent enumeration, a parameter.\<close>

definition apply_geo_filter ::
  "(trip_filter \<Rightarrow> bool) \<Rightarrow> row list \<Rightarrow> cell list \<Rightarrow> trip_filter \<Rightarrow> error + row list"
where
  "apply_geo_filter is_od_type nts_data gors trip_filter_type =
     (if is_od_type trip_filter_type
      then apply_od_geo_filter nts_data gors trip_filter_type
      else Inl (ValueError_geo_filter trip_filter_type))"

section \<open>The segment filter\<close>

text \<open>A value of the dictionary \<^verbatim>\<open>df_filter\<close>: one value, or a list of accepted values.\<close>

datatype filter_value = Scalar cell | Values "cell list"

type_synonym df_filter = "(string \<times> filter_value) list"

definition to_dict :: "(cell \<times> cell list) list" where
  "to_dict = [(Str ''hb'', [Str ''hb_to'', Str ''hb_from'']), (Str ''nhb'', [Str ''nhb''])]"

text \<open>\<^verbatim>\<open>np.isnan\<close> on a string raises a TypeError.\<close>

fun isnan :: "cell \<Rightarrow> error + bool" where
  "isnan NaN = Inr True"
| "isnan (Num x) = Inr False"
| "isnan (Str s) = Inl (TypeError_isnan (Str s))"

text \<open>
  The loop that builds \<^verbatim>\<open>df_filter\<close>. \<open>get_purposes v\<close> is
  \<^verbatim>\<open>nd_core.UserClass(v).get_purposes()\<close>, of an enumeration that is not among the sources:
  \<open>None\<close> when \<open>v\<close> is no user class.
\<close>

fun build_df_filter ::
  "(cell \<Rightarrow> cell list option) \<Rightarrow> seg_params \<Rightarrow> df_filter \<Rightarrow> error + df_filter"
where
  "build_df_filter get_purposes [] df_filter = Inr df_filter"
| "build_df_filter get_purposes ((seg_name, seg_val) # rest) df_filter =
     (if seg_name = ''trip_origin'' then
        (case map_of to_dict seg_val of
           None \<Rightarrow> Inl (KeyError seg_val)
         | Some v \<Rightarrow>
             build_df_filter get_purposes rest (AList.update seg_name (Values v) df_filter))
      else if seg_name = ''uc'' then
        (case get_purposes seg_val of
           None \<Rightarrow> Inl (ValueError_user_class seg_val)
         | Some ps \<Rightarrow>
             build_df_filter get_purposes rest (AList.update purpose_col (Values ps) df_filter))
      else if seg_name = ''soc'' \<or> seg_name = ''ns'' then
        (case isnan seg_val of
           Inl e \<Rightarrow> Inl e
         | Inr is_nan \<Rightarrow>
             (if \<not> is_nan
              then build_df_filter get_purposes rest
                     (AList.update seg_name (Scalar seg_val) df_filter)
              else build_df_filter get_purposes rest df_filter))
      else build_df_filter get_purposes rest (AList.update seg_name (Scalar seg_val) df_filter))"

text \<open>
  What one iteration of that loop does, on its own: the exception it raises, or the entry
  it stores in \<^verbatim>\<open>df_filter\<close>, or nothing. It serves the proofs about the loop.
\<close>

fun df_filter_entry ::
  "(cell \<Rightarrow> cell list option) \<Rightarrow> string \<times> cell \<Rightarrow> error + (string \<times> filter_value) option"
where
  "df_filter_entry get_purposes (seg_name, seg_val) =
     (if seg_name = ''trip_origin'' then
        (case map_of to_dict seg_val of
           None \<Rightarrow> Inl (KeyError seg_val)
         | Some v \<Rightarrow> Inr (Some (seg_name, Values v)))
      else if seg_name = ''uc'' then
        (case get_purposes seg_val of
           None \<Rightarrow> Inl (ValueError_user_class seg_val)
         | Some ps \<Rightarrow> Inr (Some (purpose_col, Values ps)))
      else if seg_name = ''soc'' \<or> seg_name = ''ns'' then
        (case isnan seg_val of
           Inl e \<Rightarrow> Inl e
         | Inr is_nan \<Rightarrow> (if \<not> is_nan then Inr (Some (seg_name, Scalar seg_val)) else Inr None))
      else Inr (Some (seg_name, Scalar seg_val)))"

text \<open>
  Modelled from the spec: \<^verbatim>\<open>pd_utils.filter_df\<close> is not among the sources. The spec: a
  list of values is a membership test, any other value an exact-match equality filter on
  the column, and all filters are conjunctive.
\<close>

fun cell_matches :: "row \<Rightarrow> string \<times> filter_value \<Rightarrow> bool" where
  "cell_matches r (c, Scalar v) = (col_value r c = v)"
| "cell_matches r (c, Values vs) = (col_value r c \<in> set vs)"

definition filter_df :: "row list \<Rightarrow> df_filter \<Rightarrow> row list" where
  "filter_df df flt = filter (\<lambda>r. list_all (cell_matches r) flt) df"

definition filter_nts_data ::
  "(cell \<Rightarrow> cell list option) \<Rightarrow> row list \<Rightarrow> seg_params \<Rightarrow> error + row list"
where
  "filter_nts_data get_purposes nts_data segment_params =
     (case build_df_filter get_purposes segment_params [] of
        Inl e \<Rightarrow> Inl e
      | Inr flt \<Rightarrow> Inr (filter_df nts_data flt))"

section \<open>The orchestrator build_tld\<close>

text \<open>
  The collaborators that are not among the sources, as parameters:
  \<^verbatim>\<open>CostUnits.get_conversion_factor\<close> of the input cost units, \<^verbatim>\<open>UserClass.get_purposes\<close>,
  \<^verbatim>\<open>SegmentationLevel.generate_file_name\<close> (called with the segment parameters and their
  \<^verbatim>\<open>trip_origin\<close> entry) and \<^verbatim>\<open>CostDistribution.to_df\<close>.
\<close>

type_synonym export_row = "(string \<times> cell) list"

record collaborators =
  get_conversion_factor :: "string \<Rightarrow> real"
  get_purposes :: "cell \<Rightarrow> cell list option"
  generate_file_name :: "seg_params \<Rightarrow> cell option \<Rightarrow> string"
  to_df :: "cost_distribution \<Rightarrow> seg_params \<Rightarrow> export_row list"

record bands =
  lower :: "real list"
  upper :: "real list"

text \<open>A call of \<^verbatim>\<open>LOG.warning\<close>: the segment, the threshold and the sample size it reports.\<close>

record warning =
  warned_segment :: seg_params
  warned_threshold :: int
  warned_sample_size :: nat

record tld_state =
  name_to_distribution :: "(string \<times> cost_distribution) list"
  sample_size_log :: "seg_params list"
  full_export :: "export_row list list"
  warnings :: "warning list"

definition generate_tld_name :: "collaborators \<Rightarrow> seg_params \<Rightarrow> string" where
  "generate_tld_name c segment_params =
     (let trip_origin = map_of segment_params ''trip_origin''
      in generate_file_name c segment_params trip_origin)"

text \<open>\<^verbatim>\<open>np.array([min_bounds[0]] + max_bounds.tolist())\<close>: an IndexError on an empty table.\<close>

definition band_edges_of :: "bands \<Rightarrow> error + real list" where
  "band_edges_of bnds =
     (let min_bounds = lower bnds; max_bounds = upper bnds
      in case min_bounds of
           [] \<Rightarrow> Inl IndexError
         | m # _ \<Rightarrow> Inr ([m] @ max_bounds))"

text \<open>\<^verbatim>\<open>pd.concat\<close> raises ValueError("No objects to concatenate") on an empty list.\<close>

definition pd_concat :: "export_row list list \<Rightarrow> error + export_row list" where
  "pd_concat objs =
     (if objs = [] then Inl ValueError_no_objects_to_concatenate else Inr (concat objs))"

text \<open>
  The body of the loop over the segments, for one segment. \<^verbatim>\<open>continue\<close> ends the body
  with the state it has reached; an exception ends it as \<open>Inl\<close>. The line of the log is
  a copy of the segment parameters with the entries \<open>records\<close> and \<open>status\<close>.
\<close>

definition tld_segment ::
  "collaborators \<Rightarrow> row list \<Rightarrow> bands \<Rightarrow> string \<Rightarrow> int \<Rightarrow> seg_params \<Rightarrow> tld_state
     \<Rightarrow> error + tld_state"
where
  "tld_segment c tld_data bnds units sample_threshold segment_params st =
     (case filter_nts_data (get_purposes c) tld_data segment_params of
        Inl e \<Rightarrow> Inl e
      | Inr data_subset \<Rightarrow>
          (let sample_size = length data_subset;
               log_line = AList.update ''records'' (Num (real sample_size)) segment_params
           in if int sample_size < sample_threshold then
                (let log_line = AList.update ''status'' (Str ''Failed'') log_line;
                     st = st\<lparr>warnings := warnings st @
                            [\<lparr>warned_segment = segment_params,
                              warned_threshold = sample_threshold,
                              warned_sample_size = sample_size\<rparr>]\<rparr>
                 in Inr st)
              else
                (let log_line = AList.update ''status'' (Str ''Passed'') log_line;
                     st = st\<lparr>sample_size_log := sample_size_log st @ [log_line]\<rparr>
                 in case band_edges_of bnds of
                      Inl e \<Rightarrow> Inl e
                    | Inr band_edges \<Rightarrow>
                        (let tld = build_cost_distribution (get_conversion_factor c)
                                     data_subset band_edges units;
                             st = st\<lparr>full_export := full_export st @
                                    [to_df c tld segment_params]\<rparr>;
                             tld_name = generate_tld_name c segment_params;
                             st = st\<lparr>name_to_distribution :=
                                    AList.update tld_name tld (name_to_distribution st)\<rparr>
                         in Inr st))))"

text \<open>The loop: the segments in the order of the enumerator, until an exception.\<close>

fun build_tld_loop ::
  "collaborators \<Rightarrow> row list \<Rightarrow> bands \<Rightarrow> seg_params list \<Rightarrow> string \<Rightarrow> int \<Rightarrow> tld_state
     \<Rightarrow> error + tld_state"
where
  "build_tld_loop c tld_data bnds [] units sample_threshold st = Inr st"
| "build_tld_loop c tld_data bnds (segment_params # rest) units sample_threshold st =
     (case tld_segment c tld_data bnds units sample_threshold segment_params st of
        Inl e \<Rightarrow> Inl e
      | Inr st' \<Rightarrow> build_tld_loop c tld_data bnds rest units sample_threshold st')"

definition init_state :: tld_state where
  "init_state =
     \<lparr>name_to_distribution = [], sample_size_log = [], full_export = [], warnings = []\<rparr>"

record tld_result =
  res_name_to_distribution :: "(string \<times> cost_distribution) list"
  res_sample_size_log :: "seg_params list"
  res_full_export :: "export_row list"

definition build_tld ::
  "collaborators \<Rightarrow> row list \<Rightarrow> bands \<Rightarrow> seg_params list \<Rightarrow> string \<Rightarrow> int
     \<Rightarrow> error + tld_result"
where
  "build_tld c tld_data bnds segmentation units sample_threshold =
     (case build_tld_loop c tld_data bnds segmentation units sample_threshold init_state of
        Inl e \<Rightarrow> Inl e
      | Inr st \<Rightarrow>
          (case pd_concat (full_export st) of
             Inl e \<Rightarrow> Inl e
           | Inr export \<Rightarrow>
               Inr \<lparr>res_name_to_distribution = name_to_distribution st,
                    res_sample_size_log = sample_size_log st,
                    res_full_export = export\<rparr>))"

text \<open>
  Two notions for the statements about build_tld: the rows the segment filter returns for
  a segment (none when it raises), and whether their number reaches the threshold.
\<close>

definition segment_subset :: "collaborators \<Rightarrow> row list \<Rightarrow> seg_params \<Rightarrow> row list" where
  "segment_subset c tld_data segment_params =
     (case filter_nts_data (get_purposes c) tld_data segment_params of
        Inl e \<Rightarrow> []
      | Inr data_subset \<Rightarrow> data_subset)"

definition segment_passes :: "collaborators \<Rightarrow> row list \<Rightarrow> int \<Rightarrow> seg_params \<Rightarrow> bool" where
  "segment_passes c tld_data sample_threshold segment_params =
     (\<not> int (length (segment_subset c tld_data segment_params)) < sample_threshold)"

section \<open>Properties of the cost distribution builder\<close>




lemma pairwise_seq_lower_bound:
  "sorted_wrt (<) (e # es) \<Longrightarrow> b \<in> set (pairwise_seq (e # es)) \<Longrightarrow> (e::real) \<le> fst b"
proof (induction es arbitrary: e)
  case Nil
  then show ?case by simp
next
  case (Cons a es)
  from Cons.prems have "b = (e, a) \<or> b \<in> set (pairwise_seq (a # es))" by simp
  then show ?case
  proof
    assume "b = (e, a)"
    then show ?thesis by simp
  next
    assume "b \<in> set (pairwise_seq (a # es))"
    with Cons.IH [of a] Cons.prems have "a \<le> fst b" by simp
    moreover from Cons.prems have "e < a" by simp
    ultimately show ?thesis by simp
  qed
qed

lemma no_band_below:
  assumes "sorted_wrt (<) (e # es)" and "d \<le> (e::real)"
  shows "filter (\<lambda>b. fst b < d \<and> d < snd b) (pairwise_seq (e # es)) = []"
proof -
  have "\<not> fst b < d" if "b \<in> set (pairwise_seq (e # es))" for b
    using pairwise_seq_lower_bound [OF assms(1) that] assms(2) by simp
  then show ?thesis by (simp add: filter_empty_conv)
qed

lemma at_most_one_band:
  "sorted_wrt (<) (es::real list) \<Longrightarrow>
     length (filter (\<lambda>b. fst b < d \<and> d < snd b) (pairwise_seq es)) \<le> 1"
proof (induction es rule: pairwise_seq.induct)
  case (1 a b xs)
  from "1.prems" have sb: "sorted_wrt (<) (b # xs)" by simp
  show ?case
  proof (cases "d < b")
    case True
    have "filter (\<lambda>b. fst b < d \<and> d < snd b) (pairwise_seq (b # xs)) = []"
      by (rule no_band_below [OF sb less_imp_le [OF True]])
    then show ?thesis by simp
  next
    case False
    then show ?thesis using "1.IH" [OF sb] by simp
  qed
qed simp_all

lemma edge_in_no_band:
  "sorted_wrt (<) (es::real list) \<Longrightarrow> d \<in> set es \<Longrightarrow>
     filter (\<lambda>b. fst b < d \<and> d < snd b) (pairwise_seq es) = []"
proof (induction es rule: pairwise_seq.induct)
  case (1 a b xs)
  from "1.prems" have sb: "sorted_wrt (<) (b # xs)" by simp
  show ?case
  proof (cases "d = a")
    case True
    then have "d \<le> a" by simp
    from no_band_below [OF "1.prems"(1) this] show ?thesis .
  next
    case False
    with "1.prems" have "d \<in> set (b # xs)" by simp
    from "1.IH" [OF sb this] False "1.prems" show ?thesis by auto
  qed
qed simp_all

lemma band_mask_iff:
  "band_mask (fst b) (snd b) r = (fst b < trip_dist r \<and> trip_dist r < snd b)"
  by (auto simp: band_mask_def)

section \<open>The claims about the cost distribution builder\<close>

text \<open>
  Claim C3. For band edges that increase strictly, the unit-converted distance of a record
  satisfies \<open>lower < distance < upper\<close> for at most one pair of consecutive edges; and a
  record whose converted distance equals an edge satisfies the mask of no band, so the
  builder selects it into no band.
\<close>

theorem record_in_at_most_one_band:
  assumes "sorted_wrt (<) band_edges"
  shows "length (filter (\<lambda>b. band_mask (fst b) (snd b) (convert_dist cf r))
                   (pairwise_seq band_edges)) \<le> 1 \<and>
         (trip_dist (convert_dist cf r) \<in> set band_edges \<longrightarrow>
            (\<forall>b \<in> set (pairwise_seq band_edges).
               \<not> band_mask (fst b) (snd b) (convert_dist cf r) \<and>
               convert_dist cf r \<notin> set (band_rows (fst b) (snd b) (map (convert_dist cf) data))))"
proof -
  let ?d = "trip_dist (convert_dist cf r)"
  have one: "length (filter (\<lambda>b. fst b < ?d \<and> ?d < snd b) (pairwise_seq band_edges)) \<le> 1"
    by (rule at_most_one_band [OF assms])
  have none: "filter (\<lambda>b. fst b < ?d \<and> ?d < snd b) (pairwise_seq band_edges) = []"
    if "?d \<in> set band_edges"
    by (rule edge_in_no_band [OF assms that])
  show ?thesis
    using one none by (auto simp: band_mask_iff band_rows_def filter_empty_conv)
qed

theorem record_in_at_most_one_band_witness:
  "sorted_wrt (<) [0, 2, 5 :: real] \<and>
   length (filter (\<lambda>b. band_mask (fst b) (snd b)
                     (convert_dist 1 \<lparr>trip_dist = 2, trip_count = 4, cols = []\<rparr>))
             (pairwise_seq [0, 2, 5])) \<le> 1 \<and>
   trip_dist (convert_dist 1 \<lparr>trip_dist = 2, trip_count = 4, cols = []\<rparr>) \<in> set [0, 2, 5] \<and>
   band_rows 0 2 (map (convert_dist 1) [\<lparr>trip_dist = 2, trip_count = 4, cols = []\<rparr>]) = [] \<and>
   band_rows 2 5 (map (convert_dist 1) [\<lparr>trip_dist = 2, trip_count = 4, cols = []\<rparr>]) = []"
  using record_in_at_most_one_band [of "[0, 2, 5]" 1
      "\<lparr>trip_dist = 2, trip_count = 4, cols = []\<rparr>"
      "[\<lparr>trip_dist = 2, trip_count = 4, cols = []\<rparr>]"]
  by (simp add: band_rows_def band_mask_def convert_dist_def)






section \<open>The claims about the filters\<close>

lemma isin_eq: "isin c values = (\<lambda>r. col_value r c \<in> set values)"
  by (simp add: fun_eq_iff isin_def)

lemma build_df_filter_Cons:
  "build_df_filter gp (p # rest) f =
     (case df_filter_entry gp p of
        Inl e \<Rightarrow> Inl e
      | Inr None \<Rightarrow> build_df_filter gp rest f
      | Inr (Some (k, fv)) \<Rightarrow> build_df_filter gp rest (AList.update k fv f))"
  by (cases p) (simp split: option.splits sum.splits)

lemma df_filter_entry_key:
  "df_filter_entry gp p = Inr (Some (k, fv)) \<Longrightarrow> k = fst p \<or> k = purpose_col"
  by (cases p) (simp split: option.splits sum.splits if_splits)

lemma df_filter_entry_nan:
  "n = ''soc'' \<or> n = ''ns'' \<Longrightarrow> df_filter_entry gp (n, NaN) = Inr None"
  by auto

lemma df_filter_entry_num:
  "n = ''soc'' \<or> n = ''ns'' \<Longrightarrow> df_filter_entry gp (n, Num x) = Inr (Some (n, Scalar (Num x)))"
  by auto

lemma build_df_filter_append:
  "build_df_filter gp (xs @ ys) f =
     (case build_df_filter gp xs f of Inl e \<Rightarrow> Inl e | Inr g \<Rightarrow> build_df_filter gp ys g)"
proof (induction xs arbitrary: f)
  case Nil
  then show ?case by simp
next
  case (Cons p xs)
  show ?case
    unfolding append_Cons build_df_filter_Cons
    by (simp add: Cons.IH split: sum.splits option.splits)
qed

lemma build_df_filter_error_indep:
  "build_df_filter gp ps f = Inl e \<Longrightarrow> build_df_filter gp ps g = Inl e"
proof (induction ps arbitrary: f g)
  case Nil
  then show ?case by simp
next
  case (Cons p ps)
  from Cons.prems show ?case
    unfolding build_df_filter_Cons
    by (auto split: sum.splits option.splits dest: Cons.IH)
qed

lemma build_df_filter_keys:
  assumes "build_df_filter gp ps f = Inr g" and "distinct (map fst f)"
    and "map_of f n = None" and "n \<notin> fst ` set ps" and "n \<noteq> purpose_col"
  shows "distinct (map fst g) \<and> map_of g n = None"
  using assms(1-4)
proof (induction ps arbitrary: f)
  case Nil
  then show ?case by simp
next
  case (Cons p ps)
  from Cons.prems(4) have fresh: "n \<noteq> fst p" "n \<notin> fst ` set ps" by auto
  show ?case
  proof (cases "df_filter_entry gp p")
    case (Inl e)
    with Cons.prems(1) show ?thesis by (simp add: build_df_filter_Cons)
  next
    case (Inr entry)
    show ?thesis
    proof (cases entry)
      case None
      with Inr Cons.prems(1) have "build_df_filter gp ps f = Inr g"
        by (simp add: build_df_filter_Cons)
      from Cons.IH [OF this Cons.prems(2,3) fresh(2)] show ?thesis .
    next
      case (Some kv)
      obtain k fv where kv: "kv = (k, fv)" by (cases kv)
      with Some Inr Cons.prems(1)
      have run: "build_df_filter gp ps (AList.update k fv f) = Inr g"
        by (simp add: build_df_filter_Cons)
      from df_filter_entry_key [of gp p k fv] Inr Some kv fresh(1) assms(5)
      have "k \<noteq> n" by auto
      then have "map_of (AList.update k fv f) n = None"
        using Cons.prems(3) by (simp add: update_conv')
      moreover have "distinct (map fst (AList.update k fv f))"
        using Cons.prems(2) by (simp add: distinct_update)
      ultimately show ?thesis using Cons.IH [OF run _ _ fresh(2)] by blast
    qed
  qed
qed

lemma build_df_filter_extra_key:
  assumes "build_df_filter gp ps G = Inr G'"
    and "distinct (map fst F)" and "distinct (map fst G)"
    and "map_of F = (map_of G)(n \<mapsto> s)" and "map_of G n = None"
    and "n \<notin> fst ` set ps" and "n \<noteq> purpose_col"
  shows "\<exists>F'. build_df_filter gp ps F = Inr F' \<and> distinct (map fst F') \<and>
           distinct (map fst G') \<and> map_of F' = (map_of G')(n \<mapsto> s) \<and> map_of G' n = None"
  using assms(1-6)
proof (induction ps arbitrary: F G)
  case Nil
  then show ?case by simp
next
  case (Cons p ps)
  from Cons.prems(6) have fresh: "n \<noteq> fst p" "n \<notin> fst ` set ps" by auto
  show ?case
  proof (cases "df_filter_entry gp p")
    case (Inl e)
    with Cons.prems(1) show ?thesis by (simp add: build_df_filter_Cons)
  next
    case (Inr entry)
    show ?thesis
    proof (cases entry)
      case None
      with Inr Cons.prems(1) have "build_df_filter gp ps G = Inr G'"
        by (simp add: build_df_filter_Cons)
      from Cons.IH [OF this Cons.prems(2-5) fresh(2)] Inr None show ?thesis
        by (simp add: build_df_filter_Cons)
    next
      case (Some kv)
      obtain k fv where kv: "kv = (k, fv)" by (cases kv)
      with Some Inr Cons.prems(1)
      have run: "build_df_filter gp ps (AList.update k fv G) = Inr G'"
        by (simp add: build_df_filter_Cons)
      from df_filter_entry_key [of gp p k fv] Inr Some kv fresh(1) assms(7)
      have "k \<noteq> n" by auto
      then have a: "map_of (AList.update k fv G) n = None"
        and b: "map_of (AList.update k fv F) = (map_of (AList.update k fv G))(n \<mapsto> s)"
        using Cons.prems(4,5) by (auto simp: update_conv' fun_eq_iff)
      have c: "distinct (map fst (AList.update k fv F))"
        and d: "distinct (map fst (AList.update k fv G))"
        using Cons.prems(2,3) by (simp_all add: distinct_update)
      from Cons.IH [OF run c d b a fresh(2)] Inr Some kv show ?thesis
        by (simp add: build_df_filter_Cons)
    qed
  qed
qed

lemma extra_key_matches:
  assumes "distinct (map fst F)" and "distinct (map fst G)"
    and "map_of F = (map_of G)(n \<mapsto> s)" and "map_of G n = None"
  shows "list_all (cell_matches r) F \<longleftrightarrow> cell_matches r (n, s) \<and> list_all (cell_matches r) G"
proof -
  have "(k, v) \<in> set F \<longleftrightarrow> (k, v) = (n, s) \<or> (k, v) \<in> set G" for k v
  proof -
    have "(k, v) \<in> set F \<longleftrightarrow> map_of F k = Some v" using assms(1) by simp
    also have "\<dots> \<longleftrightarrow> ((map_of G)(n \<mapsto> s)) k = Some v" using assms(3) by simp
    also have "\<dots> \<longleftrightarrow> (k, v) = (n, s) \<or> (k \<noteq> n \<and> map_of G k = Some v)" by auto
    also have "\<dots> \<longleftrightarrow> (k, v) = (n, s) \<or> (k, v) \<in> set G"
      using assms(2,4) by (force simp: map_of_eq_None_iff)
    finally show ?thesis .
  qed
  then have "set F = insert (n, s) (set G)" by auto
  then show ?thesis by (simp add: list_all_iff)
qed

text \<open>
  Claim C8. For segment parameters that hold the dimension \<open>soc\<close> or \<open>ns\<close> with the value
  NaN, the segment filter applies no filter for that dimension: it returns what it returns
  for the remaining parameters (the same rows, or the same exception), whatever the rows
  hold in that column. For a numeric value of a dimension that occurs once, it returns
  the rows of the remaining filters whose column equals the value exactly.
\<close>

theorem filter_nts_data_soc_ns:
  assumes "n = ''soc'' \<or> n = ''ns''"
  shows "filter_nts_data gp nts_data (pre @ (n, NaN) # post) =
           filter_nts_data gp nts_data (pre @ post) \<and>
         (n \<notin> fst ` set (pre @ post) \<longrightarrow>
            filter_nts_data gp nts_data (pre @ (n, Num x) # post) =
              map_sum id (filter (\<lambda>r. col_value r n = Num x))
                (filter_nts_data gp nts_data (pre @ post)))"
proof
  show "filter_nts_data gp nts_data (pre @ (n, NaN) # post) =
          filter_nts_data gp nts_data (pre @ post)"
  proof -
    have "build_df_filter gp ((n, NaN) # post) g = build_df_filter gp post g" for g
      by (simp add: build_df_filter_Cons df_filter_entry_nan [OF assms]
          del: build_df_filter.simps df_filter_entry.simps)
    then show ?thesis
      by (cases "build_df_filter gp pre []")
        (simp_all add: filter_nts_data_def build_df_filter_append del: build_df_filter.simps)
  qed
next
  show "n \<notin> fst ` set (pre @ post) \<longrightarrow>
            filter_nts_data gp nts_data (pre @ (n, Num x) # post) =
              map_sum id (filter (\<lambda>r. col_value r n = Num x))
                (filter_nts_data gp nts_data (pre @ post))"
  proof
    assume fresh: "n \<notin> fst ` set (pre @ post)"
    from assms have np: "n \<noteq> purpose_col"
      by (auto simp: purpose_col_def)
    let ?s = "Scalar (Num x)"
    have head: "build_df_filter gp ((n, Num x) # post) g =
                  build_df_filter gp post (AList.update n ?s g)" for g
      by (simp add: build_df_filter_Cons df_filter_entry_num [OF assms]
          del: build_df_filter.simps df_filter_entry.simps)
    show "filter_nts_data gp nts_data (pre @ (n, Num x) # post) =
              map_sum id (filter (\<lambda>r. col_value r n = Num x))
                (filter_nts_data gp nts_data (pre @ post))"
    proof (cases "build_df_filter gp pre []")
      case (Inl e)
      then show ?thesis by (simp add: filter_nts_data_def build_df_filter_append)
    next
      case (Inr g)
      from fresh have fp: "n \<notin> fst ` set pre" and fq: "n \<notin> fst ` set post" by auto
      from build_df_filter_keys [OF Inr _ _ fp np]
      have g: "distinct (map fst g)" "map_of g n = None" by auto
      show ?thesis
      proof (cases "build_df_filter gp post g")
        case (Inl e)
        from build_df_filter_error_indep [OF this, of "AList.update n ?s g"] Inl Inr
        show ?thesis
          by (simp add: filter_nts_data_def build_df_filter_append head
              del: build_df_filter.simps)
      next
        case G': (Inr G')
        have "\<exists>F'. build_df_filter gp post (AList.update n ?s g) = Inr F' \<and>
                distinct (map fst F') \<and> distinct (map fst G') \<and>
                map_of F' = (map_of G')(n \<mapsto> ?s) \<and> map_of G' n = None"
          using g by (intro build_df_filter_extra_key [OF G' _ _ _ _ fq np])
            (simp_all add: distinct_update update_conv')
        then obtain F' where F': "build_df_filter gp post (AList.update n ?s g) = Inr F'"
          and inv: "distinct (map fst F')" "distinct (map fst G')"
            "map_of F' = (map_of G')(n \<mapsto> ?s)" "map_of G' n = None"
          by blast
        have "filter_df nts_data F' =
                filter (\<lambda>r. col_value r n = Num x) (filter_df nts_data G')"
          by (auto simp: filter_df_def extra_key_matches [OF inv] intro: filter_cong)
        with F' G' Inr show ?thesis
          by (simp add: filter_nts_data_def build_df_filter_append head
              del: build_df_filter.simps)
      qed
    qed
  qed
qed

theorem filter_nts_data_soc_ns_witness:
  "filter_nts_data (\<lambda>v. None)
     [\<lparr>trip_dist = 1, trip_count = 1, cols = [(''p'', Num 1), (''soc'', Num 1)]\<rparr>,
      \<lparr>trip_dist = 2, trip_count = 1, cols = [(''p'', Num 1), (''soc'', Num 2)]\<rparr>,
      \<lparr>trip_dist = 3, trip_count = 1, cols = [(''p'', Num 2), (''soc'', NaN)]\<rparr>]
     [(''p'', Num 1), (''soc'', NaN)] =
     Inr [\<lparr>trip_dist = 1, trip_count = 1, cols = [(''p'', Num 1), (''soc'', Num 1)]\<rparr>,
          \<lparr>trip_dist = 2, trip_count = 1, cols = [(''p'', Num 1), (''soc'', Num 2)]\<rparr>] \<and>
   filter_nts_data (\<lambda>v. None)
     [\<lparr>trip_dist = 1, trip_count = 1, cols = [(''p'', Num 1), (''soc'', Num 1)]\<rparr>,
      \<lparr>trip_dist = 2, trip_count = 1, cols = [(''p'', Num 1), (''soc'', Num 2)]\<rparr>,
      \<lparr>trip_dist = 3, trip_count = 1, cols = [(''p'', Num 2), (''soc'', NaN)]\<rparr>]
     [(''p'', Num 1), (''soc'', Num 2)] =
     Inr [\<lparr>trip_dist = 2, trip_count = 1, cols = [(''p'', Num 1), (''soc'', Num 2)]\<rparr>]"
  using filter_nts_data_soc_ns [of "''soc''" "\<lambda>v. None"
     "[\<lparr>trip_dist = 1, trip_count = 1, cols = [(''p'', Num 1), (''soc'', Num 1)]\<rparr>,
       \<lparr>trip_dist = 2, trip_count = 1, cols = [(''p'', Num 1), (''soc'', Num 2)]\<rparr>,
       \<lparr>trip_dist = 3, trip_count = 1, cols = [(''p'', Num 2), (''soc'', NaN)]\<rparr>]"
     "[(''p'', Num 1)]" "[]" 2]
  by (simp add: filter_nts_data_def filter_df_def col_value_def)

text \<open>
  Claim C9. For a trip filter mode other than \<open>TRIP_OD\<close>, \<open>TRIP_O\<close> and \<open>TRIP_D\<close> the geo
  filter raises a ValueError whose message names the mode, and returns no data. For the
  three modes, when \<open>is_od_type\<close> accepts them, it keeps (after the transposition of the
  \<open>hb_to\<close> rows) the rows with both origin and destination, the origin only, or the
  destination only in the codes of the area.
\<close>

theorem apply_geo_filter_modes:
  "(t \<noteq> TRIP_OD \<and> t \<noteq> TRIP_O \<and> t \<noteq> TRIP_D \<longrightarrow>
      (\<exists>e. apply_geo_filter is_od_type nts_data gors t = Inl e \<and> named_mode e = Some t)) \<and>
   (is_od_type TRIP_OD \<longrightarrow>
      apply_geo_filter is_od_type nts_data gors TRIP_OD =
        Inr (filter (\<lambda>r. col_value r orig_gor_col \<in> set gors \<and>
                         col_value r dest_gor_col \<in> set gors)
               (map transpose_hb_to nts_data))) \<and>
   (is_od_type TRIP_O \<longrightarrow>
      apply_geo_filter is_od_type nts_data gors TRIP_O =
        Inr (filter (\<lambda>r. col_value r orig_gor_col \<in> set gors)
               (map transpose_hb_to nts_data))) \<and>
   (is_od_type TRIP_D \<longrightarrow>
      apply_geo_filter is_od_type nts_data gors TRIP_D =
        Inr (filter (\<lambda>r. col_value r dest_gor_col \<in> set gors)
               (map transpose_hb_to nts_data)))"
  by (auto simp: apply_geo_filter_def apply_od_geo_filter_def Let_def isin_eq conj_commute)

theorem apply_geo_filter_modes_witness:
  "apply_geo_filter (\<lambda>t. True)
     [\<lparr>trip_dist = 1, trip_count = 1, cols = [(''trip_origin'', Str ''hb_to''),
        (''TripOrigGOR_B02ID'', Num 1), (''TripDestGOR_B02ID'', Num 2)]\<rparr>,
      \<lparr>trip_dist = 1, trip_count = 1, cols = [(''trip_origin'', Str ''hb_from''),
        (''TripOrigGOR_B02ID'', Num 1), (''TripDestGOR_B02ID'', Num 2)]\<rparr>]
     [Num 1] (TRIP_OTHER ''trip_hh'') = Inl (ValueError_od_filter (TRIP_OTHER ''trip_hh'')) \<and>
   apply_geo_filter (\<lambda>t. True)
     [\<lparr>trip_dist = 1, trip_count = 1, cols = [(''trip_origin'', Str ''hb_to''),
        (''TripOrigGOR_B02ID'', Num 1), (''TripDestGOR_B02ID'', Num 2)]\<rparr>,
      \<lparr>trip_dist = 1, trip_count = 1, cols = [(''trip_origin'', Str ''hb_from''),
        (''TripOrigGOR_B02ID'', Num 1), (''TripDestGOR_B02ID'', Num 2)]\<rparr>]
     [Num 1] TRIP_O =
     Inr [\<lparr>trip_dist = 1, trip_count = 1, cols = [(''trip_origin'', Str ''hb_from''),
        (''TripOrigGOR_B02ID'', Num 1), (''TripDestGOR_B02ID'', Num 2)]\<rparr>] \<and>
   apply_geo_filter (\<lambda>t. True)
     [\<lparr>trip_dist = 1, trip_count = 1, cols = [(''trip_origin'', Str ''hb_to''),
        (''TripOrigGOR_B02ID'', Num 1), (''TripDestGOR_B02ID'', Num 2)]\<rparr>,
      \<lparr>trip_dist = 1, trip_count = 1, cols = [(''trip_origin'', Str ''hb_from''),
        (''TripOrigGOR_B02ID'', Num 1), (''TripDestGOR_B02ID'', Num 2)]\<rparr>]
     [Num 1] TRIP_D =
     Inr [\<lparr>trip_dist = 1, trip_count = 1, cols = [(''trip_origin'', Str ''hb_to''),
        (''TripOrigGOR_B02ID'', Num 2), (''TripDestGOR_B02ID'', Num 1)]\<rparr>] \<and>
   apply_geo_filter (\<lambda>t. True)
     [\<lparr>trip_dist = 1, trip_count = 1, cols = [(''trip_origin'', Str ''hb_to''),
        (''TripOrigGOR_B02ID'', Num 1), (''TripDestGOR_B02ID'', Num 2)]\<rparr>,
      \<lparr>trip_dist = 1, trip_count = 1, cols = [(''trip_origin'', Str ''hb_from''),
        (''TripOrigGOR_B02ID'', Num 1), (''TripDestGOR_B02ID'', Num 2)]\<rparr>]
     [Num 1] TRIP_OD = Inr []"
  using apply_geo_filter_modes [of "TRIP_OTHER ''trip_hh''" "\<lambda>t. True"
     "[\<lparr>trip_dist = 1, trip_count = 1, cols = [(''trip_origin'', Str ''hb_to''),
        (''TripOrigGOR_B02ID'', Num 1), (''TripDestGOR_B02ID'', Num 2)]\<rparr>,
      \<lparr>trip_dist = 1, trip_count = 1, cols = [(''trip_origin'', Str ''hb_from''),
        (''TripOrigGOR_B02ID'', Num 1), (''TripDestGOR_B02ID'', Num 2)]\<rparr>]" "[Num 1]"]
  by (simp add: apply_geo_filter_def apply_od_geo_filter_def Let_def isin_def
      transpose_hb_to_def col_value_def orig_gor_col_def dest_gor_col_def trip_origin_col_def)

section \<open>The claims about build_tld\<close>

lemma segment_subset_Inr:
  "filter_nts_data (get_purposes c) tld_data s = Inr d \<Longrightarrow> segment_subset c tld_data s = d"
  by (simp add: segment_subset_def)

lemma tld_segment_failed:
  assumes "filter_nts_data (get_purposes c) tld_data s = Inr d"
    and "int (length d) < thr"
  shows "tld_segment c tld_data bnds u thr s st =
           Inr (st\<lparr>warnings := warnings st @
                  [\<lparr>warned_segment = s, warned_threshold = thr,
                    warned_sample_size = length d\<rparr>]\<rparr>)"
  using assms by (simp add: tld_segment_def Let_def)

lemma tld_segment_passed:
  assumes "filter_nts_data (get_purposes c) tld_data s = Inr d"
    and "\<not> int (length d) < thr" and "lower bnds \<noteq> []"
  shows "tld_segment c tld_data bnds u thr s st =
           Inr (st\<lparr>sample_size_log := sample_size_log st @
                    [AList.update ''status'' (Str ''Passed'')
                       (AList.update ''records'' (Num (real (length d))) s)],
                  full_export := full_export st @
                    [to_df c (build_cost_distribution (get_conversion_factor c) d
                                (hd (lower bnds) # upper bnds) u) s],
                  name_to_distribution :=
                    AList.update (generate_tld_name c s)
                      (build_cost_distribution (get_conversion_factor c) d
                         (hd (lower bnds) # upper bnds) u)
                      (name_to_distribution st)\<rparr>)"
  using assms
  by (cases "lower bnds") (simp_all add: tld_segment_def Let_def band_edges_of_def)

lemma tld_segment_Inr:
  assumes "tld_segment c tld_data bnds u thr s st = Inr st'"
  obtains d where "filter_nts_data (get_purposes c) tld_data s = Inr d"
    and "int (length d) < thr \<or> lower bnds \<noteq> []"
proof -
  from assms obtain d where d: "filter_nts_data (get_purposes c) tld_data s = Inr d"
    by (cases "filter_nts_data (get_purposes c) tld_data s") (simp_all add: tld_segment_def)
  have "int (length d) < thr \<or> lower bnds \<noteq> []"
  proof (rule ccontr)
    assume "\<not> (int (length d) < thr \<or> lower bnds \<noteq> [])"
    then have "tld_segment c tld_data bnds u thr s st = Inl IndexError"
      using d by (simp add: tld_segment_def Let_def band_edges_of_def)
    with assms show False by simp
  qed
  with d that show thesis by blast
qed

lemma set_update_subset: "set (AList.update k v al) \<subseteq> insert (k, v) (set al)"
  by (induction al) auto

lemma tld_segment_fields:
  assumes "tld_segment c tld_data bnds u thr s st = Inr st'"
  shows "\<exists>d. filter_nts_data (get_purposes c) tld_data s = Inr d"
    and "segment_passes c tld_data thr s \<longrightarrow> lower bnds \<noteq> []"
    and "sample_size_log st' = sample_size_log st @
           (if segment_passes c tld_data thr s
            then [AList.update ''status'' (Str ''Passed'')
                    (AList.update ''records''
                       (Num (real (length (segment_subset c tld_data s)))) s)]
            else [])"
    and "full_export st' = full_export st @
           (if segment_passes c tld_data thr s
            then [to_df c (build_cost_distribution (get_conversion_factor c)
                             (segment_subset c tld_data s)
                             (hd (lower bnds) # upper bnds) u) s]
            else [])"
    and "set (name_to_distribution st') \<subseteq> set (name_to_distribution st) \<union>
           (if segment_passes c tld_data thr s
            then {(generate_tld_name c s,
                   build_cost_distribution (get_conversion_factor c)
                     (segment_subset c tld_data s) (hd (lower bnds) # upper bnds) u)}
            else {})"
proof -
  from assms obtain d where d: "filter_nts_data (get_purposes c) tld_data s = Inr d"
    and ok: "int (length d) < thr \<or> lower bnds \<noteq> []"
    by (rule tld_segment_Inr)
  note sub = segment_subset_Inr [OF d]
  show "\<exists>d. filter_nts_data (get_purposes c) tld_data s = Inr d" using d by blast
  show "segment_passes c tld_data thr s \<longrightarrow> lower bnds \<noteq> []"
    using ok by (auto simp: segment_passes_def sub)
  have st': "st' = (if int (length d) < thr
      then st\<lparr>warnings := warnings st @
                  [\<lparr>warned_segment = s, warned_threshold = thr,
                    warned_sample_size = length d\<rparr>]\<rparr>
      else st\<lparr>sample_size_log := sample_size_log st @
                    [AList.update ''status'' (Str ''Passed'')
                       (AList.update ''records'' (Num (real (length d))) s)],
                  full_export := full_export st @
                    [to_df c (build_cost_distribution (get_conversion_factor c) d
                                (hd (lower bnds) # upper bnds) u) s],
                  name_to_distribution :=
                    AList.update (generate_tld_name c s)
                      (build_cost_distribution (get_conversion_factor c) d
                         (hd (lower bnds) # upper bnds) u)
                      (name_to_distribution st)\<rparr>)"
  proof (cases "int (length d) < thr")
    case True
    from tld_segment_failed [OF d True, of bnds u st] assms True show ?thesis by simp
  next
    case False
    with ok have "lower bnds \<noteq> []" by simp
    from tld_segment_passed [OF d False this, of u st] assms False show ?thesis by simp
  qed
  show "sample_size_log st' = sample_size_log st @
           (if segment_passes c tld_data thr s
            then [AList.update ''status'' (Str ''Passed'')
                    (AList.update ''records''
                       (Num (real (length (segment_subset c tld_data s)))) s)]
            else [])"
    by (simp add: st' segment_passes_def sub)
  show "full_export st' = full_export st @
           (if segment_passes c tld_data thr s
            then [to_df c (build_cost_distribution (get_conversion_factor c)
                             (segment_subset c tld_data s)
                             (hd (lower bnds) # upper bnds) u) s]
            else [])"
    by (simp add: st' segment_passes_def sub)
  show "set (name_to_distribution st') \<subseteq> set (name_to_distribution st) \<union>
           (if segment_passes c tld_data thr s
            then {(generate_tld_name c s,
                   build_cost_distribution (get_conversion_factor c)
                     (segment_subset c tld_data s) (hd (lower bnds) # upper bnds) u)}
            else {})"
    using set_update_subset [of "generate_tld_name c s" _ "name_to_distribution st"]
    by (auto simp: st' segment_passes_def sub)
qed

lemma build_tld_loop_fields:
  assumes "build_tld_loop c tld_data bnds segs u thr st = Inr st'"
  shows "(\<forall>s \<in> set segs. \<exists>d. filter_nts_data (get_purposes c) tld_data s = Inr d) \<and>
         ((\<exists>s \<in> set segs. segment_passes c tld_data thr s) \<longrightarrow> lower bnds \<noteq> []) \<and>
         sample_size_log st' = sample_size_log st @
           map (\<lambda>s. AList.update ''status'' (Str ''Passed'')
                      (AList.update ''records''
                         (Num (real (length (segment_subset c tld_data s)))) s))
             (filter (segment_passes c tld_data thr) segs) \<and>
         full_export st' = full_export st @
           map (\<lambda>s. to_df c (build_cost_distribution (get_conversion_factor c)
                               (segment_subset c tld_data s)
                               (hd (lower bnds) # upper bnds) u) s)
             (filter (segment_passes c tld_data thr) segs) \<and>
         set (name_to_distribution st') \<subseteq> set (name_to_distribution st) \<union>
           (\<lambda>s. (generate_tld_name c s,
                  build_cost_distribution (get_conversion_factor c)
                    (segment_subset c tld_data s) (hd (lower bnds) # upper bnds) u))
             ` {s \<in> set segs. segment_passes c tld_data thr s}"
  using assms
proof (induction segs arbitrary: st)
  case Nil
  then show ?case by simp
next
  case (Cons s segs)
  from Cons.prems obtain st1 where
    seg: "tld_segment c tld_data bnds u thr s st = Inr st1"
    and rest: "build_tld_loop c tld_data bnds segs u thr st1 = Inr st'"
    by (cases "tld_segment c tld_data bnds u thr s st") simp_all
  note f = tld_segment_fields [OF seg]
  note ih = Cons.IH [OF rest]
  have names: "set (name_to_distribution st') \<subseteq> set (name_to_distribution st) \<union>
           (\<lambda>s. (generate_tld_name c s,
                  build_cost_distribution (get_conversion_factor c)
                    (segment_subset c tld_data s) (hd (lower bnds) # upper bnds) u))
             ` {x \<in> set (s # segs). segment_passes c tld_data thr x}"
    using f(5) ih by (auto split: if_splits)
  show ?case
    using f(1-4) ih names by (auto split: if_splits)
qed

lemma build_tld_loop_total:
  assumes "\<forall>s \<in> set segs. \<exists>d. filter_nts_data (get_purposes c) tld_data s = Inr d"
    and "lower bnds \<noteq> []"
  shows "\<exists>st'. build_tld_loop c tld_data bnds segs u thr st = Inr st'"
  using assms(1)
proof (induction segs arbitrary: st)
  case Nil
  then show ?case by simp
next
  case (Cons s segs)
  then obtain d where d: "filter_nts_data (get_purposes c) tld_data s = Inr d" by auto
  have "\<exists>st1. tld_segment c tld_data bnds u thr s st = Inr st1"
  proof (cases "int (length d) < thr")
    case True
    from tld_segment_failed [OF d True] show ?thesis by blast
  next
    case False
    from tld_segment_passed [OF d False assms(2)] show ?thesis by blast
  qed
  then obtain st1 where "tld_segment c tld_data bnds u thr s st = Inr st1" ..
  moreover from Cons have "\<exists>st'. build_tld_loop c tld_data bnds segs u thr st1 = Inr st'"
    by simp
  ultimately show ?case by simp
qed

lemma edges_build_cost_distribution:
  "edges (build_cost_distribution gcf data band_edges u) = band_edges"
  by (simp add: build_cost_distribution_def Let_def)

lemma sorted_Min_hd:
  "sorted (xs::real list) \<Longrightarrow> xs \<noteq> [] \<Longrightarrow> Min (set xs) = hd xs"
  by (cases xs) (auto intro!: Min_eqI)

lemma build_tld_Inr:
  assumes "build_tld c tld_data bnds segs u thr = Inr res"
  obtains st' where "build_tld_loop c tld_data bnds segs u thr init_state = Inr st'"
    and "res_name_to_distribution res = name_to_distribution st'"
    and "res_sample_size_log res = sample_size_log st'"
    and "res_full_export res = concat (full_export st')"
    and "full_export st' \<noteq> []"
  using assms
  by (auto simp: build_tld_def pd_concat_def split: sum.splits if_splits)

text \<open>
  Claim C1, as the code has it. When build_tld returns, its sample size log holds one line
  per segment that passed the threshold, in the order of the segments, each with the
  status \<open>Passed\<close>: the line of a segment below the threshold gets the status
  \<open>Failed\<close> and is dropped by the \<^verbatim>\<open>continue\<close> before it is appended. The claim
  asks for one line per segment attempted; with one segment of two below the threshold
  the log has one line.
\<close>

theorem build_tld_logs_passed_only:
  assumes "build_tld c tld_data bnds segs u thr = Inr res"
  shows "res_sample_size_log res =
           map (\<lambda>s. AList.update ''status'' (Str ''Passed'')
                      (AList.update ''records''
                         (Num (real (length (segment_subset c tld_data s)))) s))
             (filter (segment_passes c tld_data thr) segs) \<and>
         length (res_sample_size_log res) =
           length (filter (segment_passes c tld_data thr) segs) \<and>
         (\<forall>line \<in> set (res_sample_size_log res).
            map_of line ''status'' = Some (Str ''Passed''))"
proof -
  from assms obtain st' where
    loop: "build_tld_loop c tld_data bnds segs u thr init_state = Inr st'"
    and log: "res_sample_size_log res = sample_size_log st'"
    by (rule build_tld_Inr)
  from build_tld_loop_fields [OF loop] log
  have eq: "res_sample_size_log res =
           map (\<lambda>s. AList.update ''status'' (Str ''Passed'')
                      (AList.update ''records''
                         (Num (real (length (segment_subset c tld_data s)))) s))
             (filter (segment_passes c tld_data thr) segs)"
    by (simp add: init_state_def)
  show ?thesis
    unfolding eq by (auto simp: update_conv')
qed

theorem build_tld_logs_passed_only_witness:
  "build_tld
     \<lparr>get_conversion_factor = \<lambda>u. 1, get_purposes = \<lambda>v. None,
        generate_file_name = \<lambda>s t. ''cost_distribution'',
        to_df = \<lambda>cd s. map (\<lambda>t. (''trips'', Num t) # s) (band_trips cd)\<rparr>
     [\<lparr>trip_dist = 1 / 2, trip_count = 3, cols = [(''p'', Num 1)]\<rparr>] \<lparr>lower = [0], upper = [1]\<rparr>
     [[(''p'', Num 1)], [(''p'', Num 2)]] ''miles'' 1 =
   Inr \<lparr>res_name_to_distribution = [(''cost_distribution'', \<lparr>edges = [0, 1], band_trips = [3], cost_units = ''miles'',
          band_mean_cost = [Finite (1 / 2)], sample_size = 1\<rparr>)],
        res_sample_size_log =
          [[(''p'', Num 1), (''records'', Num 1), (''status'', Str ''Passed'')]],
        res_full_export = [[(''trips'', Num 3), (''p'', Num 1)]]\<rparr> \<and>
   length (filter (segment_passes
     \<lparr>get_conversion_factor = \<lambda>u. 1, get_purposes = \<lambda>v. None,
        generate_file_name = \<lambda>s t. ''cost_distribution'',
        to_df = \<lambda>cd s. map (\<lambda>t. (''trips'', Num t) # s) (band_trips cd)\<rparr>
     [\<lparr>trip_dist = 1 / 2, trip_count = 3, cols = [(''p'', Num 1)]\<rparr>] 1) [[(''p'', Num 1)], [(''p'', Num 2)]]) = 1 \<and>
   length [[(''p'', Num 1)], [(''p'', Num 2)]] = 2"
proof -
  have run: "build_tld
     \<lparr>get_conversion_factor = \<lambda>u. 1, get_purposes = \<lambda>v. None,
        generate_file_name = \<lambda>s t. ''cost_distribution'',
        to_df = \<lambda>cd s. map (\<lambda>t. (''trips'', Num t) # s) (band_trips cd)\<rparr>
     [\<lparr>trip_dist = 1 / 2, trip_count = 3, cols = [(''p'', Num 1)]\<rparr>] \<lparr>lower = [0], upper = [1]\<rparr>
     [[(''p'', Num 1)], [(''p'', Num 2)]] ''miles'' 1 =
   Inr \<lparr>res_name_to_distribution = [(''cost_distribution'', \<lparr>edges = [0, 1], band_trips = [3], cost_units = ''miles'',
          band_mean_cost = [Finite (1 / 2)], sample_size = 1\<rparr>)],
        res_sample_size_log =
          [[(''p'', Num 1), (''records'', Num 1), (''status'', Str ''Passed'')]],
        res_full_export = [[(''trips'', Num 3), (''p'', Num 1)]]\<rparr>"
    by (simp add: build_tld_def tld_segment_def filter_nts_data_def filter_df_def col_value_def
      band_edges_of_def pd_concat_def init_state_def Let_def generate_tld_name_def
      build_cost_distribution_def band_rows_def band_mask_def convert_dist_def
      trips_sum_def distance_sum_def mean_cost_def np_divide_def)
  from build_tld_logs_passed_only [OF run]
  have "length (res_sample_size_log
     \<lparr>res_name_to_distribution = [(''cost_distribution'', \<lparr>edges = [0, 1], band_trips = [3], cost_units = ''miles'',
          band_mean_cost = [Finite (1 / 2)], sample_size = 1\<rparr>)],
        res_sample_size_log =
          [[(''p'', Num 1), (''records'', Num 1), (''status'', Str ''Passed'')]],
        res_full_export = [[(''trips'', Num 3), (''p'', Num 1)]]\<rparr>) =
    length (filter (segment_passes
     \<lparr>get_conversion_factor = \<lambda>u. 1, get_purposes = \<lambda>v. None,
        generate_file_name = \<lambda>s t. ''cost_distribution'',
        to_df = \<lambda>cd s. map (\<lambda>t. (''trips'', Num t) # s) (band_trips cd)\<rparr>
     [\<lparr>trip_dist = 1 / 2, trip_count = 3, cols = [(''p'', Num 1)]\<rparr>] 1) [[(''p'', Num 1)], [(''p'', Num 2)]])"
    by (rule conjunct1 [OF conjunct2])
  then have "length (filter (segment_passes
     \<lparr>get_conversion_factor = \<lambda>u. 1, get_purposes = \<lambda>v. None,
        generate_file_name = \<lambda>s t. ''cost_distribution'',
        to_df = \<lambda>cd s. map (\<lambda>t. (''trips'', Num t) # s) (band_trips cd)\<rparr>
     [\<lparr>trip_dist = 1 / 2, trip_count = 3, cols = [(''p'', Num 1)]\<rparr>] 1) [[(''p'', Num 1)], [(''p'', Num 2)]]) = 1"
    by simp
  with run show ?thesis by simp
qed

text \<open>
  Claim C2, as amended. When build_tld returns, the bands table has a row, and every
  distribution it registered was built by the cost distribution builder from the edges
  \<open>lower[0]\<close> followed by the values of the column \<open>upper\<close>. The first value of the
  column \<open>lower\<close> is its minimum when the column is in ascending order; on a table that
  is not, the edges do not start with the minimum.
\<close>

theorem build_tld_band_edges:
  assumes "build_tld c tld_data bnds segs u thr = Inr res"
    and "(name, cd) \<in> set (res_name_to_distribution res)"
  shows "lower bnds \<noteq> [] \<and>
         (\<exists>s \<in> set segs.
            cd = build_cost_distribution (get_conversion_factor c)
                   (segment_subset c tld_data s) (hd (lower bnds) # upper bnds) u) \<and>
         edges cd = hd (lower bnds) # upper bnds \<and>
         (sorted (lower bnds) \<longrightarrow> edges cd = Min (set (lower bnds)) # upper bnds)"
proof -
  from assms(1) obtain st' where
    loop: "build_tld_loop c tld_data bnds segs u thr init_state = Inr st'"
    and names: "res_name_to_distribution res = name_to_distribution st'"
    by (rule build_tld_Inr)
  from build_tld_loop_fields [OF loop] assms(2) names
  obtain s where s: "s \<in> set segs" "segment_passes c tld_data thr s"
    and cd: "cd = build_cost_distribution (get_conversion_factor c)
                   (segment_subset c tld_data s) (hd (lower bnds) # upper bnds) u"
    by (auto simp: init_state_def)
  from build_tld_loop_fields [OF loop] s have ne: "lower bnds \<noteq> []" by blast
  have e: "edges cd = hd (lower bnds) # upper bnds"
    by (simp add: cd edges_build_cost_distribution)
  show ?thesis
    using ne s(1) cd e sorted_Min_hd [of "lower bnds"] by auto
qed

theorem build_tld_band_edges_witness:
  "build_tld
     \<lparr>get_conversion_factor = \<lambda>u. 1, get_purposes = \<lambda>v. None,
        generate_file_name = \<lambda>s t. ''cost_distribution'',
        to_df = \<lambda>cd s. map (\<lambda>t. (''trips'', Num t) # s) (band_trips cd)\<rparr>
     [\<lparr>trip_dist = 3, trip_count = 3, cols = [(''p'', Num 1)]\<rparr>] \<lparr>lower = [2, 0], upper = [5, 2]\<rparr>
     [[(''p'', Num 1)]] ''miles'' 1 =
   Inr \<lparr>res_name_to_distribution = [(''cost_distribution'', \<lparr>edges = [2, 5, 2], band_trips = [3, 0], cost_units = ''miles'',
          band_mean_cost = [Finite 3, Finite (7 / 2)], sample_size = 1\<rparr>)],
        res_sample_size_log = [[(''p'', Num 1), (''records'', Num 1), (''status'', Str ''Passed'')]],
        res_full_export = [[(''trips'', Num 3), (''p'', Num 1)],
                           [(''trips'', Num 0), (''p'', Num 1)]]\<rparr> \<and>
   edges \<lparr>edges = [2, 5, 2], band_trips = [3, 0], cost_units = ''miles'',
          band_mean_cost = [Finite 3, Finite (7 / 2)], sample_size = 1\<rparr> = hd [2, 0] # [5, 2] \<and>
   build_tld
     \<lparr>get_conversion_factor = \<lambda>u. 1, get_purposes = \<lambda>v. None,
        generate_file_name = \<lambda>s t. ''cost_distribution'',
        to_df = \<lambda>cd s. map (\<lambda>t. (''trips'', Num t) # s) (band_trips cd)\<rparr>
     [\<lparr>trip_dist = 3, trip_count = 3, cols = [(''p'', Num 1)]\<rparr>] \<lparr>lower = [0, 2], upper = [2, 5]\<rparr>
     [[(''p'', Num 1)]] ''miles'' 1 =
   Inr \<lparr>res_name_to_distribution = [(''cost_distribution'', \<lparr>edges = [0, 2, 5], band_trips = [0, 3], cost_units = ''miles'',
          band_mean_cost = [Finite 1, Finite 3], sample_size = 1\<rparr>)],
        res_sample_size_log = [[(''p'', Num 1), (''records'', Num 1), (''status'', Str ''Passed'')]],
        res_full_export = [[(''trips'', Num 0), (''p'', Num 1)],
                           [(''trips'', Num 3), (''p'', Num 1)]]\<rparr> \<and>
   edges \<lparr>edges = [0, 2, 5], band_trips = [0, 3], cost_units = ''miles'',
          band_mean_cost = [Finite 1, Finite 3], sample_size = 1\<rparr> = Min (set [0, 2]) # [2, 5]"
proof -
  let ?c = "\<lparr>get_conversion_factor = \<lambda>u. 1, get_purposes = \<lambda>v. None,
        generate_file_name = \<lambda>s t. ''cost_distribution'',
        to_df = \<lambda>cd s. map (\<lambda>t. (''trips'', Num t) # s) (band_trips cd)\<rparr>"
  let ?d = "[\<lparr>trip_dist = 3, trip_count = 3, cols = [(''p'', Num 1)]\<rparr>]"
  let ?r1 = "\<lparr>res_name_to_distribution = [(''cost_distribution'', \<lparr>edges = [2, 5, 2], band_trips = [3, 0], cost_units = ''miles'',
          band_mean_cost = [Finite 3, Finite (7 / 2)], sample_size = 1\<rparr>)],
        res_sample_size_log = [[(''p'', Num 1), (''records'', Num 1), (''status'', Str ''Passed'')]],
        res_full_export = [[(''trips'', Num 3), (''p'', Num 1)],
                           [(''trips'', Num 0), (''p'', Num 1)]]\<rparr>"
  let ?r2 = "\<lparr>res_name_to_distribution = [(''cost_distribution'', \<lparr>edges = [0, 2, 5], band_trips = [0, 3], cost_units = ''miles'',
          band_mean_cost = [Finite 1, Finite 3], sample_size = 1\<rparr>)],
        res_sample_size_log = [[(''p'', Num 1), (''records'', Num 1), (''status'', Str ''Passed'')]],
        res_full_export = [[(''trips'', Num 0), (''p'', Num 1)],
                           [(''trips'', Num 3), (''p'', Num 1)]]\<rparr>"
  have run1: "build_tld ?c ?d \<lparr>lower = [2, 0], upper = [5, 2]\<rparr> [[(''p'', Num 1)]] ''miles'' 1 = Inr ?r1"
    by (simp add: build_tld_def tld_segment_def filter_nts_data_def filter_df_def col_value_def
      band_edges_of_def pd_concat_def init_state_def Let_def generate_tld_name_def
      build_cost_distribution_def band_rows_def band_mask_def convert_dist_def
      trips_sum_def distance_sum_def mean_cost_def np_divide_def)
  have run2: "build_tld ?c ?d \<lparr>lower = [0, 2], upper = [2, 5]\<rparr> [[(''p'', Num 1)]] ''miles'' 1 = Inr ?r2"
    by (simp add: build_tld_def tld_segment_def filter_nts_data_def filter_df_def col_value_def
      band_edges_of_def pd_concat_def init_state_def Let_def generate_tld_name_def
      build_cost_distribution_def band_rows_def band_mask_def convert_dist_def
      trips_sum_def distance_sum_def mean_cost_def np_divide_def)
  have mem1: "(''cost_distribution'', \<lparr>edges = [2, 5, 2], band_trips = [3, 0], cost_units = ''miles'',
          band_mean_cost = [Finite 3, Finite (7 / 2)], sample_size = 1\<rparr>)
      \<in> set (res_name_to_distribution ?r1)"
    by simp
  have mem2: "(''cost_distribution'', \<lparr>edges = [0, 2, 5], band_trips = [0, 3], cost_units = ''miles'',
          band_mean_cost = [Finite 1, Finite 3], sample_size = 1\<rparr>)
      \<in> set (res_name_to_distribution ?r2)"
    by simp
  note t1 = build_tld_band_edges [OF run1 mem1]
  note t2 = build_tld_band_edges [OF run2 mem2]
  from t1 have "edges \<lparr>edges = [2, 5, 2], band_trips = [3, 0], cost_units = ''miles'',
          band_mean_cost = [Finite 3, Finite (7 / 2)], sample_size = 1\<rparr> =
      hd (lower \<lparr>lower = [2, 0], upper = [5, 2]\<rparr>) # upper \<lparr>lower = [2, 0], upper = [5, 2]\<rparr>"
    by (elim conjE)
  then have e1: "edges \<lparr>edges = [2, 5, 2], band_trips = [3, 0], cost_units = ''miles'',
          band_mean_cost = [Finite 3, Finite (7 / 2)], sample_size = 1\<rparr> = hd [2, 0] # [5, 2]"
    by simp
  from t2 have "sorted (lower \<lparr>lower = [0, 2], upper = [2, 5]\<rparr>) \<longrightarrow>
      edges \<lparr>edges = [0, 2, 5], band_trips = [0, 3], cost_units = ''miles'',
          band_mean_cost = [Finite 1, Finite 3], sample_size = 1\<rparr> =
        Min (set (lower \<lparr>lower = [0, 2], upper = [2, 5]\<rparr>)) # upper \<lparr>lower = [0, 2], upper = [2, 5]\<rparr>"
    by (elim conjE)
  then have e2: "edges \<lparr>edges = [0, 2, 5], band_trips = [0, 3], cost_units = ''miles'',
          band_mean_cost = [Finite 1, Finite 3], sample_size = 1\<rparr> = Min (set [0, 2]) # [2, 5]"
    by simp
  from run1 e1 run2 e2 show ?thesis by blast
qed

theorem build_tld_band_edges_counterexample:
  "build_tld
     \<lparr>get_conversion_factor = \<lambda>u. 1, get_purposes = \<lambda>v. None,
        generate_file_name = \<lambda>s t. ''cost_distribution'',
        to_df = \<lambda>cd s. map (\<lambda>t. (''trips'', Num t) # s) (band_trips cd)\<rparr>
     [\<lparr>trip_dist = 3, trip_count = 3, cols = [(''p'', Num 1)]\<rparr>] \<lparr>lower = [2, 0], upper = [5, 2]\<rparr>
     [[(''p'', Num 1)]] ''miles'' 1 =
   Inr \<lparr>res_name_to_distribution = [(''cost_distribution'', \<lparr>edges = [2, 5, 2], band_trips = [3, 0], cost_units = ''miles'',
          band_mean_cost = [Finite 3, Finite (7 / 2)], sample_size = 1\<rparr>)],
        res_sample_size_log = [[(''p'', Num 1), (''records'', Num 1), (''status'', Str ''Passed'')]],
        res_full_export = [[(''trips'', Num 3), (''p'', Num 1)],
                           [(''trips'', Num 0), (''p'', Num 1)]]\<rparr> \<and>
   edges \<lparr>edges = [2, 5, 2], band_trips = [3, 0], cost_units = ''miles'',
          band_mean_cost = [Finite 3, Finite (7 / 2)], sample_size = 1\<rparr> \<noteq>
     Min (set (lower \<lparr>lower = [2, 0], upper = [5, 2]\<rparr>)) # upper \<lparr>lower = [2, 0], upper = [5, 2]\<rparr>"
  by (simp add: build_tld_def tld_segment_def filter_nts_data_def filter_df_def col_value_def
      band_edges_of_def pd_concat_def init_state_def Let_def generate_tld_name_def
      build_cost_distribution_def band_rows_def band_mask_def convert_dist_def
      trips_sum_def distance_sum_def mean_cost_def np_divide_def)

text \<open>
  Claim C6, as amended. When no segment reaches the sample threshold, build_tld raises
  an error: the ValueError of \<^verbatim>\<open>pd.concat\<close> on the empty export list when every segment
  was filtered without an exception. When at least one segment reaches it, every
  segment is filtered without an exception and the bands table has a row, build_tld
  returns, and the export is the concatenation of the tables of the segments that
  passed. Without the last two conditions a run with a passing segment can still raise:
  a KeyError of the segment filter on a later segment, or the IndexError of the band
  edges on a bands table without a row.
\<close>

theorem build_tld_empty_export:
  "((\<forall>s \<in> set segs. \<not> segment_passes c tld_data thr s) \<longrightarrow>
      (\<exists>e. build_tld c tld_data bnds segs u thr = Inl e)) \<and>
   ((\<forall>s \<in> set segs. (\<exists>d. filter_nts_data (get_purposes c) tld_data s = Inr d) \<and>
        \<not> segment_passes c tld_data thr s) \<longrightarrow>
      build_tld c tld_data bnds segs u thr = Inl ValueError_no_objects_to_concatenate) \<and>
   ((\<exists>s \<in> set segs. segment_passes c tld_data thr s) \<and>
    (\<forall>s \<in> set segs. \<exists>d. filter_nts_data (get_purposes c) tld_data s = Inr d) \<and>
    lower bnds \<noteq> [] \<longrightarrow>
      (\<exists>res. build_tld c tld_data bnds segs u thr = Inr res \<and>
         res_full_export res =
           concat (map (\<lambda>s. to_df c (build_cost_distribution (get_conversion_factor c)
                                       (segment_subset c tld_data s)
                                       (hd (lower bnds) # upper bnds) u) s)
                     (filter (segment_passes c tld_data thr) segs))))"
proof (intro conjI impI)
  assume none: "\<forall>s \<in> set segs. \<not> segment_passes c tld_data thr s"
  show "\<exists>e. build_tld c tld_data bnds segs u thr = Inl e"
  proof (cases "build_tld_loop c tld_data bnds segs u thr init_state")
    case (Inl e)
    then show ?thesis by (simp add: build_tld_def)
  next
    case (Inr st')
    from none have "filter (segment_passes c tld_data thr) segs = []"
      by (simp add: filter_empty_conv)
    with build_tld_loop_fields [OF Inr] have "full_export st' = []"
      by (simp add: init_state_def)
    with Inr show ?thesis by (simp add: build_tld_def pd_concat_def)
  qed
next
  assume none: "\<forall>s \<in> set segs. (\<exists>d. filter_nts_data (get_purposes c) tld_data s = Inr d) \<and>
        \<not> segment_passes c tld_data thr s"
  have "\<exists>st'. build_tld_loop c tld_data bnds segs u thr st = Inr st' \<and>
          full_export st' = full_export st" for st
    using none
  proof (induction segs arbitrary: st)
    case Nil
    then show ?case by simp
  next
    case (Cons s segs)
    then obtain d where d: "filter_nts_data (get_purposes c) tld_data s = Inr d"
      and small: "int (length d) < thr"
      by (auto simp: segment_passes_def segment_subset_def)
    let ?st1 = "st\<lparr>warnings := warnings st @
                  [\<lparr>warned_segment = s, warned_threshold = thr,
                    warned_sample_size = length d\<rparr>]\<rparr>"
    have seg: "tld_segment c tld_data bnds u thr s st = Inr ?st1"
      by (rule tld_segment_failed [OF d small])
    from Cons.prems have "\<forall>s \<in> set segs.
        (\<exists>d. filter_nts_data (get_purposes c) tld_data s = Inr d) \<and>
        \<not> segment_passes c tld_data thr s" by simp
    from Cons.IH [OF this, of ?st1] obtain st' where
      "build_tld_loop c tld_data bnds segs u thr ?st1 = Inr st'"
      "full_export st' = full_export ?st1" by blast
    with seg show ?case by simp
  qed
  then obtain st' where "build_tld_loop c tld_data bnds segs u thr init_state = Inr st'"
    and "full_export st' = full_export init_state" by blast
  then show "build_tld c tld_data bnds segs u thr = Inl ValueError_no_objects_to_concatenate"
    by (simp add: build_tld_def pd_concat_def init_state_def)
next
  assume ok: "(\<exists>s \<in> set segs. segment_passes c tld_data thr s) \<and>
    (\<forall>s \<in> set segs. \<exists>d. filter_nts_data (get_purposes c) tld_data s = Inr d) \<and>
    lower bnds \<noteq> []"
  then obtain st' where loop: "build_tld_loop c tld_data bnds segs u thr init_state = Inr st'"
    using build_tld_loop_total [of segs c tld_data bnds u thr init_state] by blast
  let ?exp = "map (\<lambda>s. to_df c (build_cost_distribution (get_conversion_factor c)
                                       (segment_subset c tld_data s)
                                       (hd (lower bnds) # upper bnds) u) s)
                     (filter (segment_passes c tld_data thr) segs)"
  from build_tld_loop_fields [OF loop] have fe: "full_export st' = ?exp"
    by (simp add: init_state_def)
  from ok have "filter (segment_passes c tld_data thr) segs \<noteq> []"
    by (auto simp: filter_empty_conv)
  with fe have "full_export st' \<noteq> []" by simp
  with loop fe show "\<exists>res. build_tld c tld_data bnds segs u thr = Inr res \<and>
         res_full_export res = concat ?exp"
    by (simp add: build_tld_def pd_concat_def)
qed

theorem build_tld_empty_export_witness:
  "build_tld
     \<lparr>get_conversion_factor = \<lambda>u. 1, get_purposes = \<lambda>v. None,
        generate_file_name = \<lambda>s t. ''cost_distribution'',
        to_df = \<lambda>cd s. map (\<lambda>t. (''trips'', Num t) # s) (band_trips cd)\<rparr>
     [\<lparr>trip_dist = 1 / 2, trip_count = 3, cols = [(''p'', Num 1)]\<rparr>] \<lparr>lower = [0], upper = [1]\<rparr>
     [[(''p'', Num 2)]] ''miles'' 1 = Inl ValueError_no_objects_to_concatenate \<and>
   map_sum id res_full_export (build_tld
     \<lparr>get_conversion_factor = \<lambda>u. 1, get_purposes = \<lambda>v. None,
        generate_file_name = \<lambda>s t. ''cost_distribution'',
        to_df = \<lambda>cd s. map (\<lambda>t. (''trips'', Num t) # s) (band_trips cd)\<rparr>
     [\<lparr>trip_dist = 1 / 2, trip_count = 3, cols = [(''p'', Num 1)]\<rparr>] \<lparr>lower = [0], upper = [1]\<rparr>
     [[(''p'', Num 1)], [(''p'', Num 2)]] ''miles'' 1) = Inr [[(''trips'', Num 3), (''p'', Num 1)]]"
  using build_tld_empty_export [of "[[(''p'', Num 2)]]"
     "\<lparr>get_conversion_factor = \<lambda>u. 1, get_purposes = \<lambda>v. None,
        generate_file_name = \<lambda>s t. ''cost_distribution'',
        to_df = \<lambda>cd s. map (\<lambda>t. (''trips'', Num t) # s) (band_trips cd)\<rparr>"
     "[\<lparr>trip_dist = 1 / 2, trip_count = 3, cols = [(''p'', Num 1)]\<rparr>]" 1 "\<lparr>lower = [0], upper = [1]\<rparr>" "''miles''"]
    build_tld_empty_export [of "[[(''p'', Num 1)], [(''p'', Num 2)]]"
     "\<lparr>get_conversion_factor = \<lambda>u. 1, get_purposes = \<lambda>v. None,
        generate_file_name = \<lambda>s t. ''cost_distribution'',
        to_df = \<lambda>cd s. map (\<lambda>t. (''trips'', Num t) # s) (band_trips cd)\<rparr>"
     "[\<lparr>trip_dist = 1 / 2, trip_count = 3, cols = [(''p'', Num 1)]\<rparr>]" 1 "\<lparr>lower = [0], upper = [1]\<rparr>" "''miles''"]
  by (simp add: build_tld_def tld_segment_def filter_nts_data_def filter_df_def col_value_def
      band_edges_of_def pd_concat_def init_state_def Let_def generate_tld_name_def
      build_cost_distribution_def band_rows_def band_mask_def convert_dist_def
      trips_sum_def distance_sum_def mean_cost_def np_divide_def)

theorem build_tld_empty_export_counterexample:
  "segment_passes
     \<lparr>get_conversion_factor = \<lambda>u. 1, get_purposes = \<lambda>v. None,
        generate_file_name = \<lambda>s t. ''cost_distribution'',
        to_df = \<lambda>cd s. map (\<lambda>t. (''trips'', Num t) # s) (band_trips cd)\<rparr>
     [\<lparr>trip_dist = 1 / 2, trip_count = 3, cols = [(''p'', Num 1)]\<rparr>] 1 [(''p'', Num 1)] \<and>
   build_tld
     \<lparr>get_conversion_factor = \<lambda>u. 1, get_purposes = \<lambda>v. None,
        generate_file_name = \<lambda>s t. ''cost_distribution'',
        to_df = \<lambda>cd s. map (\<lambda>t. (''trips'', Num t) # s) (band_trips cd)\<rparr>
     [\<lparr>trip_dist = 1 / 2, trip_count = 3, cols = [(''p'', Num 1)]\<rparr>] \<lparr>lower = [0], upper = [1]\<rparr>
     [[(''p'', Num 1)], [(''trip_origin'', Str ''xx'')]] ''miles'' 1 = Inl (KeyError (Str ''xx'')) \<and>
   build_tld
     \<lparr>get_conversion_factor = \<lambda>u. 1, get_purposes = \<lambda>v. None,
        generate_file_name = \<lambda>s t. ''cost_distribution'',
        to_df = \<lambda>cd s. map (\<lambda>t. (''trips'', Num t) # s) (band_trips cd)\<rparr>
     [\<lparr>trip_dist = 1 / 2, trip_count = 3, cols = [(''p'', Num 1)]\<rparr>] \<lparr>lower = [], upper = []\<rparr> [[(''p'', Num 1)]] ''miles'' 1 = Inl IndexError"
  by (simp add: segment_passes_def segment_subset_def to_dict_def build_tld_def tld_segment_def filter_nts_data_def filter_df_def col_value_def
      band_edges_of_def pd_concat_def init_state_def Let_def generate_tld_name_def
      build_cost_distribution_def band_rows_def band_mask_def convert_dist_def
      trips_sum_def distance_sum_def mean_cost_def np_divide_def)










end
